theory Spec2Isabelle
  imports Complex_Main
begin

section \<open>Drawing surface\<close>

text \<open>
  Grafix.js draws on a browser's \<open>CanvasRenderingContext2D\<close>. The library only writes
  four of its style attributes, brackets its work with \<open>save\<close> and \<open>restore\<close>, builds
  a path and paints it or paints text. The surface is therefore a record of the current
  values of those four attributes, the stack of saved styles, the current path and the
  list of everything painted so far, in order. An assignment to an attribute stores the
  assigned value. JavaScript numbers that are coordinates, lengths or times are real
  numbers here (no rounding, no NaN).

  Text handed to the surface is either a string, a number (the grid labels) or a template
  literal mixing both; it is kept as the list of its parts, so that no number formatting
  has to be modelled.
\<close>

datatype part = Lit string | Num real

type_synonym jstext = "part list"

record style =
  ctx_strokeStyle :: string
  ctx_lineWidth :: real
  ctx_fillStyle :: string
  ctx_font :: string

datatype pathop = MoveTo real real | LineTo real real

datatype painted =
    Stroke "pathop list" real string
  | FillText jstext real real string string

record ctx2d =
  cur :: style
  saved :: "style list"
  path :: "pathop list"
  drawn :: "painted list"

record canvas =
  width :: int
  height :: int

record textMetrics =
  tm_width :: real
  actualBoundingBoxAscent :: real
  actualBoundingBoxDescent :: real

definition save :: "ctx2d \<Rightarrow> ctx2d" where
  "save ctx = ctx\<lparr>saved := cur ctx # saved ctx\<rparr>"

definition restore :: "ctx2d \<Rightarrow> ctx2d" where
  "restore ctx = (case saved ctx of [] \<Rightarrow> ctx | s # ss \<Rightarrow> ctx\<lparr>cur := s, saved := ss\<rparr>)"

definition beginPath :: "ctx2d \<Rightarrow> ctx2d" where
  "beginPath ctx = ctx\<lparr>path := []\<rparr>"

definition moveTo :: "real \<Rightarrow> real \<Rightarrow> ctx2d \<Rightarrow> ctx2d" where
  "moveTo px py ctx = ctx\<lparr>path := path ctx @ [MoveTo px py]\<rparr>"

definition lineTo :: "real \<Rightarrow> real \<Rightarrow> ctx2d \<Rightarrow> ctx2d" where
  "lineTo px py ctx = ctx\<lparr>path := path ctx @ [LineTo px py]\<rparr>"

definition set_lineWidth :: "real \<Rightarrow> ctx2d \<Rightarrow> ctx2d" where
  "set_lineWidth v ctx = ctx\<lparr>cur := (cur ctx)\<lparr>ctx_lineWidth := v\<rparr>\<rparr>"

definition set_strokeStyle :: "string \<Rightarrow> ctx2d \<Rightarrow> ctx2d" where
  "set_strokeStyle v ctx = ctx\<lparr>cur := (cur ctx)\<lparr>ctx_strokeStyle := v\<rparr>\<rparr>"

definition set_fillStyle :: "string \<Rightarrow> ctx2d \<Rightarrow> ctx2d" where
  "set_fillStyle v ctx = ctx\<lparr>cur := (cur ctx)\<lparr>ctx_fillStyle := v\<rparr>\<rparr>"

definition set_font :: "string \<Rightarrow> ctx2d \<Rightarrow> ctx2d" where
  "set_font v ctx = ctx\<lparr>cur := (cur ctx)\<lparr>ctx_font := v\<rparr>\<rparr>"

definition stroke :: "ctx2d \<Rightarrow> ctx2d" where
  "stroke ctx =
     ctx\<lparr>drawn := drawn ctx @
        [Stroke (path ctx) (ctx_lineWidth (cur ctx)) (ctx_strokeStyle (cur ctx))]\<rparr>"

definition fillText :: "jstext \<Rightarrow> real \<Rightarrow> real \<Rightarrow> ctx2d \<Rightarrow> ctx2d" where
  "fillText m px py ctx =
     ctx\<lparr>drawn := drawn ctx @
        [FillText m px py (ctx_fillStyle (cur ctx)) (ctx_font (cur ctx))]\<rparr>"

section \<open>Primitive drawers\<close>

record lineProps =
  x1 :: real
  y1 :: real
  x2 :: real
  y2 :: real
  strokeStyle :: string
  lineWidth :: real

record textProps =
  message :: jstext
  text_x :: real
  text_y :: real
  fillStyle :: string
  font :: string

definition drawLine :: "ctx2d \<Rightarrow> lineProps \<Rightarrow> ctx2d" where
  "drawLine ctx lp =
     (let c1 = save ctx;
          c2 = beginPath c1;
          c3 = moveTo (x1 lp) (y1 lp) c2;
          c4 = lineTo (x2 lp) (y2 lp) c3;
          c5 = set_lineWidth (lineWidth lp) c4;
          c6 = set_strokeStyle (strokeStyle lp) c5;
          c7 = stroke c6
      in restore c7)"

definition drawText :: "ctx2d \<Rightarrow> textProps \<Rightarrow> ctx2d" where
  "drawText ctx tp =
     (let c1 = save ctx;
          c2 = set_fillStyle (fillStyle tp) c1;
          c3 = set_font (font tp) c2;
          c4 = fillText (message tp) (text_x tp) (text_y tp) c3
      in restore c4)"

text \<open>
  A caller of the two drawers, in any order: used to state that they can be interleaved
  freely.
\<close>

datatype drawCall = Line lineProps | Text textProps

fun perform :: "ctx2d \<Rightarrow> drawCall list \<Rightarrow> ctx2d" where
  "perform ctx [] = ctx"
| "perform ctx (Line lp # cs) = perform (drawLine ctx lp) cs"
| "perform ctx (Text tp # cs) = perform (drawText ctx tp) cs"

section \<open>Grid and reticle\<close>

text \<open>
  The two \<open>for\<close> loops of \<open>drawGrid\<close>, one function each; the loop variable is the
  second argument. A canvas's \<open>width\<close> and \<open>height\<close> are integers, and so is the loop
  variable, which starts at 0 and grows by 30.
\<close>

function gridVertical :: "canvas \<Rightarrow> int \<Rightarrow> ctx2d \<Rightarrow> ctx2d" where
  "gridVertical cv gx ctx =
     (if gx < width cv
      then gridVertical cv (gx + 30)
             (drawText
                (drawLine ctx
                   \<lparr>x1 = of_int gx, y1 = 0, x2 = of_int gx, y2 = of_int (height cv),
                    strokeStyle = ''#333'', lineWidth = 2\<rparr>)
                \<lparr>message = [Num (of_int gx)], text_x = of_int gx - 4, text_y = 20,
                 fillStyle = ''gray'', font = ''12px Arial''\<rparr>)
      else ctx)"
  by pat_completeness auto
termination
  by (relation "measure (\<lambda>(cv, gx, ctx). nat (width cv - gx))") auto

function gridHorizontal :: "canvas \<Rightarrow> int \<Rightarrow> ctx2d \<Rightarrow> ctx2d" where
  "gridHorizontal cv gy ctx =
     (if gy < height cv
      then gridHorizontal cv (gy + 30)
             (drawText
                (drawLine ctx
                   \<lparr>x1 = 0, y1 = of_int gy, x2 = of_int (width cv), y2 = of_int gy,
                    strokeStyle = ''#333'', lineWidth = 2\<rparr>)
                \<lparr>message = [Num (of_int gy)], text_x = 10, text_y = of_int gy + 4,
                 fillStyle = ''gray'', font = ''12px Arial''\<rparr>)
      else ctx)"
  by pat_completeness auto
termination
  by (relation "measure (\<lambda>(cv, gy, ctx). nat (height cv - gy))") auto

definition drawGrid :: "canvas \<Rightarrow> ctx2d \<Rightarrow> ctx2d" where
  "drawGrid cv ctx = gridHorizontal cv 0 (gridVertical cv 0 ctx)"

definition drawCenter :: "canvas \<Rightarrow> ctx2d \<Rightarrow> ctx2d" where
  "drawCenter cv ctx =
     (let centerX = of_int (width cv) / 2;
          centerY = of_int (height cv) / 2;
          c1 = drawLine ctx
                 \<lparr>x1 = 0, y1 = centerY, x2 = of_int (width cv), y2 = centerY,
                  strokeStyle = ''darkgray'', lineWidth = 4\<rparr>
      in drawLine c1
           \<lparr>x1 = centerX, y1 = 0, x2 = centerX, y2 = of_int (height cv),
            strokeStyle = ''darkgray'', lineWidth = 4\<rparr>)"

section \<open>Text metrics\<close>

text \<open>
  \<open>ctx.measureText\<close> is a capability of the surface. What it returns depends on the
  text and on the surface's current font, so it is a parameter: a function of the font
  in force and of the text.
\<close>

record textBox =
  textTop :: real
  textBottom :: real
  textHeight :: real
  textMid :: real
  textLeft :: real
  textRight :: real
  textWidth :: real
  textHorizonalCenter :: real
  textVerticalCenter :: real

definition getTextBox ::
  "(string \<Rightarrow> jstext \<Rightarrow> textMetrics) \<Rightarrow> ctx2d \<Rightarrow> textProps \<Rightarrow> textBox" where
  "getTextBox measureText ctx tp =
     (let tm = measureText (ctx_font (cur ctx)) (message tp);
          top = \<bar>text_y tp - actualBoundingBoxAscent tm\<bar>;
          bottom = \<bar>text_y tp + actualBoundingBoxDescent tm\<bar>;
          hgt = bottom - top;
          mid = top + hgt / 2;
          left = text_x tp;
          right = text_x tp + tm_width tm
      in \<lparr>textTop = top, textBottom = bottom, textHeight = hgt, textMid = mid,
          textLeft = left, textRight = right, textWidth = tm_width tm,
          textHorizonalCenter = left + tm_width tm / 2,
          textVerticalCenter = mid\<rparr>)"

definition drawTextBox ::
  "(string \<Rightarrow> jstext \<Rightarrow> textMetrics) \<Rightarrow> ctx2d \<Rightarrow> canvas \<Rightarrow> textProps \<Rightarrow> ctx2d" where
  "drawTextBox measureText ctx cv tp =
     (let c1 = set_fillStyle (fillStyle tp) ctx;
          c2 = set_font (font tp) c1;
          tb = getTextBox measureText c2 tp;
          c3 = drawLine c2
                 \<lparr>x1 = 0, y1 = textTop tb, x2 = of_int (width cv), y2 = textTop tb,
                  strokeStyle = ''yellow'', lineWidth = 2\<rparr>;
          c4 = drawLine c3
                 \<lparr>x1 = 0, y1 = textBottom tb, x2 = of_int (width cv), y2 = textBottom tb,
                  strokeStyle = ''orange'', lineWidth = 2\<rparr>;
          c5 = drawLine c4
                 \<lparr>x1 = 0, y1 = textMid tb, x2 = of_int (width cv), y2 = textMid tb,
                  strokeStyle = ''red'', lineWidth = 2\<rparr>;
          c6 = drawLine c5
                 \<lparr>x1 = textLeft tb, y1 = 0, x2 = textLeft tb, y2 = of_int (height cv),
                  strokeStyle = ''cyan'', lineWidth = 2\<rparr>
      in drawLine c6
           \<lparr>x1 = textRight tb, y1 = 0, x2 = textRight tb, y2 = of_int (height cv),
            strokeStyle = ''chartreuse'', lineWidth = 2\<rparr>)"

section \<open>Diagnostics toggles\<close>

text \<open>
  \<open>buttonBarToggles\<close> is an object used as a dictionary from toggle names to booleans:
  the click listener reads and writes it by a name held in a string. A name that is not
  a key reads as \<open>undefined\<close>, which negates to \<open>true\<close> and tests as false.
\<close>

type_synonym toggles = "string \<rightharpoonup> bool"

definition truthy :: "bool option \<Rightarrow> bool" where
  "truthy v = (case v of None \<Rightarrow> False | Some b \<Rightarrow> b)"

definition initialToggles :: toggles where
  "initialToggles =
     [''showGrid'' \<mapsto> True, ''showCenter'' \<mapsto> True, ''showTextBox'' \<mapsto> True,
      ''showMouseCoordinates'' \<mapsto> True, ''showFPS'' \<mapsto> True]"

text \<open>
  The listener that \<open>addButtonToBar(textContent, toggle, buttonBar)\<close> installs on the
  button it creates: \<open>buttonBarToggles[toggle] = !buttonBarToggles[toggle]\<close>.
\<close>

definition addButtonToBar_click :: "string \<Rightarrow> toggles \<Rightarrow> toggles" where
  "addButtonToBar_click toggle bbt = bbt(toggle \<mapsto> \<not> truthy (bbt toggle))"

section \<open>Frame rate\<close>

record frameRateProps =
  fps :: int
  times :: "real list"
  counter :: int

text \<open>The \<open>while\<close> loop of \<open>drawFrameRate\<close>, which shifts old time stamps off the front.\<close>

fun shiftOld :: "real \<Rightarrow> real list \<Rightarrow> real list" where
  "shiftOld timeStamp [] = []"
| "shiftOld timeStamp (t # ts) =
     (if t \<le> timeStamp - 1000 then shiftOld timeStamp ts else t # ts)"

definition drawFrameRate ::
  "canvas \<Rightarrow> ctx2d \<Rightarrow> real \<Rightarrow> frameRateProps \<Rightarrow> ctx2d \<times> frameRateProps" where
  "drawFrameRate cv ctx timeStamp frp =
     (let f1 = frp\<lparr>times := shiftOld timeStamp (times frp)\<rparr>;
          f2 = f1\<lparr>times := times f1 @ [timeStamp]\<rparr>;
          f3 = f2\<lparr>counter := counter f2 + 1\<rparr>;
          f4 = (if counter f3 > 10
                then f3\<lparr>fps := int (length (times f3)), counter := 0\<rparr> else f3);
          c1 = set_fillStyle ''yellow'' ctx;
          c2 = set_font ''14px monospace'' c1
      in (fillText [Lit ''FPS: '', Num (of_int (fps f4))]
            (of_int (width cv) - 100) (of_int (height cv) - 30) c2, f4))"

text \<open>The host's render loop: one call of \<open>drawFrameRate\<close> per time stamp, in order.\<close>

fun recordFrames ::
  "canvas \<Rightarrow> real list \<Rightarrow> ctx2d \<times> frameRateProps \<Rightarrow> ctx2d \<times> frameRateProps" where
  "recordFrames cv [] s = s"
| "recordFrames cv (t # ts) s = recordFrames cv ts (drawFrameRate cv (fst s) t (snd s))"

section \<open>Mouse position and the diagnostics compositor\<close>

record mouseProps =
  mouseX :: real
  mouseY :: real

definition drawMouseMove :: "mouseProps \<Rightarrow> canvas \<Rightarrow> ctx2d \<Rightarrow> ctx2d" where
  "drawMouseMove mp cv ctx =
     (let c1 = set_fillStyle ''yellow'' ctx;
          c2 = set_font ''14px monospace'' c1
      in fillText [Num (mouseX mp), Lit '','', Num (mouseY mp)]
           35 (of_int (height cv) - 30) c2)"

text \<open>
  \<open>drawDiagonstics\<close> reads the module's \<open>buttonBarToggles\<close> and \<open>mouseProps\<close> and hands
  the module's \<open>frameRateProps\<close> to \<open>drawFrameRate\<close>; they are its first three arguments
  here. It changes the surface and \<open>frameRateProps\<close>, which it returns. The block that
  would call \<open>drawTextBox\<close> is commented out in the source and has no counterpart.
\<close>

definition drawDiagonstics ::
  "toggles \<Rightarrow> mouseProps \<Rightarrow> frameRateProps \<Rightarrow> canvas \<Rightarrow> ctx2d \<Rightarrow> real
     \<Rightarrow> ctx2d \<times> frameRateProps" where
  "drawDiagonstics bbt mp frp cv ctx timeStamp =
     (let c1 = save ctx;
          c2 = (if truthy (bbt ''showGrid'') then drawGrid cv c1 else c1);
          c3 = (if truthy (bbt ''showCenter'') then drawCenter cv c2 else c2);
          c4 = (if truthy (bbt ''showMouseCoordinates'') then drawMouseMove mp cv c3 else c3);
          (c5, f5) = (if truthy (bbt ''showFPS'') then drawFrameRate cv c4 timeStamp frp
                      else (c4, frp))
      in (restore c5, f5))"

section \<open>Time keeper\<close>

text \<open>
  The module-level object \<open>timeKeeper\<close> of Grafix.js holds three counters. The functions
  of the source mutate that object in place; here each takes the object and returns the
  updated one. The counters start at 0 and move in steps of 1, so they are integers
  (within the range where a JavaScript number represents every integer exactly), and
  \<open>Math.floor(n / 4)\<close> on such a value is the integer quotient rounded down, which is
  \<open>div\<close> on \<open>int\<close>.
\<close>

record timeKeeper =
  frameCount :: int
  generationCount :: int
  cycleCount :: int

definition MAX_SAFE_INTEGER :: int where
  "MAX_SAFE_INTEGER = 2 ^ 53 - 1"

definition initTimeKeeper :: "timeKeeper \<Rightarrow> timeKeeper" where
  "initTimeKeeper tk = tk\<lparr>frameCount := 0, generationCount := 0, cycleCount := 0\<rparr>"

definition countGenerations :: "timeKeeper \<Rightarrow> timeKeeper" where
  "countGenerations tk =
     (let tk1 = tk\<lparr>generationCount := generationCount tk + 1\<rparr>;
          tk2 = (if generationCount tk1 = MAX_SAFE_INTEGER
                 then tk1\<lparr>generationCount := 0\<rparr> else tk1)
      in tk2\<lparr>cycleCount := generationCount tk2 div 4\<rparr>)"

definition countFrames :: "timeKeeper \<Rightarrow> timeKeeper" where
  "countFrames tk =
     (let tk1 = tk\<lparr>frameCount := frameCount tk + 1\<rparr>
      in if frameCount tk1 = MAX_SAFE_INTEGER then tk1\<lparr>frameCount := 0\<rparr> else tk1)"

section \<open>Properties of the time keeper\<close>

lemma generationCount_countGenerations:
  "generationCount (countGenerations tk) =
     (if generationCount tk + 1 = MAX_SAFE_INTEGER then 0 else generationCount tk + 1)"
  by (simp add: countGenerations_def Let_def)

lemma cycleCount_countGenerations:
  "cycleCount (countGenerations tk) = generationCount (countGenerations tk) div 4"
  by (simp add: countGenerations_def Let_def)

lemma frameCount_countFrames:
  "frameCount (countFrames tk) =
     (if frameCount tk + 1 = MAX_SAFE_INTEGER then 0 else frameCount tk + 1)"
  by (simp add: countFrames_def Let_def)

lemma generationCount_funpow:
  "int n < MAX_SAFE_INTEGER \<Longrightarrow>
   generationCount ((countGenerations ^^ n) (initTimeKeeper tk)) = int n"
proof (induction n)
  case 0
  show ?case by (simp add: initTimeKeeper_def)
next
  case (Suc n)
  then have "generationCount ((countGenerations ^^ n) (initTimeKeeper tk)) = int n"
    by simp
  with Suc.prems show ?case
    by (simp add: generationCount_countGenerations)
qed

text \<open>
  Claim C1, as stated: from a counter equal to \<open>2^53 - 2\<close>, one advance gives
  \<open>2^53 - 1\<close> and a second advance gives 0. The code compares the counter with
  \<open>MAX_SAFE_INTEGER\<close> right after the increment and resets it in the same call, so the
  first advance already gives 0: the statement fails at the time keeper below (whose
  \<open>cycleCount\<close> is the one that belongs to its \<open>generationCount\<close>).
\<close>

theorem counter_wrap_counterexample:
  "\<not> (generationCount (countGenerations
          \<lparr>frameCount = 2 ^ 53 - 2, generationCount = 2 ^ 53 - 2, cycleCount = 2 ^ 51 - 1\<rparr>)
        = 2 ^ 53 - 1
      \<and> generationCount (countGenerations (countGenerations
          \<lparr>frameCount = 2 ^ 53 - 2, generationCount = 2 ^ 53 - 2, cycleCount = 2 ^ 51 - 1\<rparr>))
        = 0)"
  by (simp add: generationCount_countGenerations MAX_SAFE_INTEGER_def)

text \<open>
  Claim C1, amended: for either counter, from a state where the counter equals
  \<open>MAX_SAFE_INTEGER - 1\<close>, one advance yields 0 (the counter never holds
  \<open>MAX_SAFE_INTEGER\<close> after an advance) and a second advance yields 1.
\<close>

theorem counter_wrap_skips_max:
  "generationCount (countGenerations (tk\<lparr>generationCount := MAX_SAFE_INTEGER - 1\<rparr>)) = 0
   \<and> generationCount
        (countGenerations (countGenerations (tk\<lparr>generationCount := MAX_SAFE_INTEGER - 1\<rparr>))) = 1
   \<and> frameCount (countFrames (tk\<lparr>frameCount := MAX_SAFE_INTEGER - 1\<rparr>)) = 0
   \<and> frameCount (countFrames (countFrames (tk\<lparr>frameCount := MAX_SAFE_INTEGER - 1\<rparr>))) = 1"
  by (simp add: generationCount_countGenerations frameCount_countFrames MAX_SAFE_INTEGER_def)

text \<open>
  Claim C5: \<open>cycleCount = floor (generationCount / 4)\<close> holds after \<open>initTimeKeeper\<close>
  and after every call of \<open>countGenerations\<close>, whatever the time keeper was before; and
  \<open>4 * k\<close> calls of \<open>countGenerations\<close> after \<open>initTimeKeeper\<close> give
  \<open>cycleCount = k\<close>, as long as \<open>4 * k\<close> is below the value at which the counter wraps.
\<close>

theorem cycleCount_invariant:
  "cycleCount (initTimeKeeper tk) = generationCount (initTimeKeeper tk) div 4
   \<and> cycleCount (countGenerations tk) = generationCount (countGenerations tk) div 4
   \<and> (4 * int k < MAX_SAFE_INTEGER \<longrightarrow>
        cycleCount ((countGenerations ^^ (4 * k)) (initTimeKeeper tk)) = int k)"
proof (intro conjI impI)
  show "cycleCount (initTimeKeeper tk) = generationCount (initTimeKeeper tk) div 4"
    by (simp add: initTimeKeeper_def)
  show "cycleCount (countGenerations tk) = generationCount (countGenerations tk) div 4"
    by (rule cycleCount_countGenerations)
next
  assume below: "4 * int k < MAX_SAFE_INTEGER"
  show "cycleCount ((countGenerations ^^ (4 * k)) (initTimeKeeper tk)) = int k"
  proof (cases k)
    case 0
    then show ?thesis by (simp add: initTimeKeeper_def)
  next
    case (Suc j)
    define m where "m = 4 * j + 3"
    have calls: "4 * k = Suc m" using Suc by (simp add: m_def)
    have "int (Suc m) < MAX_SAFE_INTEGER"
      using below calls by (metis of_nat_mult of_nat_numeral)
    then have gen: "generationCount ((countGenerations ^^ Suc m) (initTimeKeeper tk)) = int (Suc m)"
      by (rule generationCount_funpow)
    have "cycleCount ((countGenerations ^^ Suc m) (initTimeKeeper tk))
          = generationCount ((countGenerations ^^ Suc m) (initTimeKeeper tk)) div 4"
      by (simp add: cycleCount_countGenerations)
    with gen have "cycleCount ((countGenerations ^^ Suc m) (initTimeKeeper tk)) = int (Suc m) div 4"
      by simp
    also have "int (Suc m) div 4 = int k"
      using calls
      by (metis nonzero_mult_div_cancel_left of_nat_mult of_nat_numeral zero_neq_numeral)
    finally show ?thesis using calls by simp
  qed
qed

theorem cycleCount_invariant_witness:
  "4 * int 3 < MAX_SAFE_INTEGER
   \<and> cycleCount ((countGenerations ^^ (4 * 3))
        (initTimeKeeper \<lparr>frameCount = 7, generationCount = 9, cycleCount = 5\<rparr>)) = 3"
  using cycleCount_invariant [of "\<lparr>frameCount = 7, generationCount = 9, cycleCount = 5\<rparr>" 3]
  by (simp add: MAX_SAFE_INTEGER_def)

section \<open>Properties of the primitive drawers\<close>

lemma drawLine_eq:
  "drawLine ctx lp =
     ctx\<lparr>path := [MoveTo (x1 lp) (y1 lp), LineTo (x2 lp) (y2 lp)],
         drawn := drawn ctx @
           [Stroke [MoveTo (x1 lp) (y1 lp), LineTo (x2 lp) (y2 lp)]
              (lineWidth lp) (strokeStyle lp)]\<rparr>"
  by (simp add: drawLine_def save_def beginPath_def moveTo_def lineTo_def set_lineWidth_def
      set_strokeStyle_def stroke_def restore_def)

lemma drawText_eq:
  "drawText ctx tp =
     ctx\<lparr>drawn := drawn ctx @
           [FillText (message tp) (text_x tp) (text_y tp) (fillStyle tp) (font tp)]\<rparr>"
  by (simp add: drawText_def save_def set_fillStyle_def set_font_def fillText_def restore_def)

lemma cur_perform: "cur (perform ctx calls) = cur ctx"
  by (induction ctx calls rule: perform.induct) (simp_all add: drawLine_eq drawText_eq)

lemma saved_perform: "saved (perform ctx calls) = saved ctx"
  by (induction ctx calls rule: perform.induct) (simp_all add: drawLine_eq drawText_eq)

text \<open>
  Claim C8: for every line spec and every text spec, \<open>drawLine\<close> and \<open>drawText\<close> leave
  the surface's style state (stroke style, line width, fill style and font, the record
  \<open>cur\<close>) as it was before the call; hence so does any sequence of calls of the two, in
  any order.
\<close>

theorem drawers_preserve_style:
  "cur (drawLine ctx lp) = cur ctx \<and> cur (drawText ctx tp) = cur ctx
   \<and> cur (perform ctx calls) = cur ctx"
  by (simp add: drawLine_eq drawText_eq cur_perform)

section \<open>Properties of the grid\<close>

declare gridVertical.simps [simp del] gridHorizontal.simps [simp del]

text \<open>
  Claim C7: on a surface 90 wide and 60 high, \<open>drawGrid\<close> paints exactly this, after
  whatever was painted before: vertical lines at \<open>x = 0, 30, 60\<close> from top to bottom,
  each followed by its label, then horizontal lines at \<open>y = 0, 30\<close> from left to right,
  each followed by its label.
\<close>

theorem drawGrid_90_60:
  "drawn (drawGrid \<lparr>width = 90, height = 60\<rparr> ctx) = drawn ctx @
     [Stroke [MoveTo 0 0, LineTo 0 60] 2 ''#333'',
      FillText [Num 0] (- 4) 20 ''gray'' ''12px Arial'',
      Stroke [MoveTo 30 0, LineTo 30 60] 2 ''#333'',
      FillText [Num 30] 26 20 ''gray'' ''12px Arial'',
      Stroke [MoveTo 60 0, LineTo 60 60] 2 ''#333'',
      FillText [Num 60] 56 20 ''gray'' ''12px Arial'',
      Stroke [MoveTo 0 0, LineTo 90 0] 2 ''#333'',
      FillText [Num 0] 10 4 ''gray'' ''12px Arial'',
      Stroke [MoveTo 0 30, LineTo 90 30] 2 ''#333'',
      FillText [Num 30] 10 34 ''gray'' ''12px Arial'']"
  by (simp add: drawGrid_def gridVertical.simps gridHorizontal.simps drawLine_eq drawText_eq)

section \<open>Properties of the text metrics\<close>

text \<open>
  Claim C6: for every text spec, every surface and every measurement capability, the box
  returned by \<open>getTextBox\<close> satisfies \<open>textHeight = textBottom - textTop\<close>,
  \<open>textMid = textTop + textHeight / 2\<close> and
  \<open>textHorizonalCenter = textLeft + textWidth / 2\<close>.
\<close>

theorem getTextBox_invariants:
  "textHeight (getTextBox mt ctx tp)
     = textBottom (getTextBox mt ctx tp) - textTop (getTextBox mt ctx tp)
   \<and> textMid (getTextBox mt ctx tp)
     = textTop (getTextBox mt ctx tp) + textHeight (getTextBox mt ctx tp) / 2
   \<and> textHorizonalCenter (getTextBox mt ctx tp)
     = textLeft (getTextBox mt ctx tp) + textWidth (getTextBox mt ctx tp) / 2"
  by (simp add: getTextBox_def Let_def)

text \<open>
  Claim C2, as stated: \<open>getTextBox\<close> assigns the text spec's fill style and font to the
  surface before it measures, so that the measurement reflects the spec's font. In the
  code \<open>getTextBox\<close> assigns nothing. With a surface whose font is \<open>10px sans-serif\<close>, a
  spec whose font is \<open>25px Arial\<close> and a measurement whose width is the length of the
  font's name, the width in the returned box is not the one measured in the spec's font.
\<close>

theorem getTextBox_ignores_spec_font:
  "textWidth
     (getTextBox
        (\<lambda>f m. \<lparr>tm_width = real (length f), actualBoundingBoxAscent = 0,
                 actualBoundingBoxDescent = 0\<rparr>)
        \<lparr>cur = \<lparr>ctx_strokeStyle = ''#000'', ctx_lineWidth = 1, ctx_fillStyle = ''#000'',
                ctx_font = ''10px sans-serif''\<rparr>,
         saved = [], path = [], drawn = []\<rparr>
        \<lparr>message = [Lit ''Hello''], text_x = 0, text_y = 0, fillStyle = ''white'',
         font = ''25px Arial''\<rparr>)
   \<noteq> tm_width
       ((\<lambda>f m. \<lparr>tm_width = real (length f), actualBoundingBoxAscent = 0,
                 actualBoundingBoxDescent = 0\<rparr>)
          ''25px Arial'' [Lit ''Hello''])"
  by (simp add: getTextBox_def Let_def)

text \<open>
  Claim C2, amended: \<open>getTextBox\<close> assigns nothing to the surface; the box it returns
  is computed from the measurement of the message in whatever font the surface currently
  has. Its caller \<open>drawTextBox\<close> assigns the text spec's fill style and font to the
  surface before it calls \<open>getTextBox\<close>: the surface has the spec's fill style and font
  afterwards, and the five guide lines it paints are placed by the measurement of the
  message in the spec's font.
\<close>

theorem drawTextBox_measures_in_spec_font:
  "getTextBox mt ctx tp =
     (let tm = mt (ctx_font (cur ctx)) (message tp);
          top = \<bar>text_y tp - actualBoundingBoxAscent tm\<bar>;
          bottom = \<bar>text_y tp + actualBoundingBoxDescent tm\<bar>
      in \<lparr>textTop = top, textBottom = bottom, textHeight = bottom - top,
          textMid = top + (bottom - top) / 2,
          textLeft = text_x tp, textRight = text_x tp + tm_width tm,
          textWidth = tm_width tm,
          textHorizonalCenter = text_x tp + tm_width tm / 2,
          textVerticalCenter = top + (bottom - top) / 2\<rparr>)
   \<and> cur (drawTextBox mt ctx cv tp)
       = (cur ctx)\<lparr>ctx_fillStyle := fillStyle tp, ctx_font := font tp\<rparr>
   \<and> drawn (drawTextBox mt ctx cv tp) = drawn ctx @
       (let tm = mt (font tp) (message tp);
            top = \<bar>text_y tp - actualBoundingBoxAscent tm\<bar>;
            bottom = \<bar>text_y tp + actualBoundingBoxDescent tm\<bar>;
            mid = top + (bottom - top) / 2;
            right = text_x tp + tm_width tm
        in [Stroke [MoveTo 0 top, LineTo (of_int (width cv)) top] 2 ''yellow'',
            Stroke [MoveTo 0 bottom, LineTo (of_int (width cv)) bottom] 2 ''orange'',
            Stroke [MoveTo 0 mid, LineTo (of_int (width cv)) mid] 2 ''red'',
            Stroke [MoveTo (text_x tp) 0, LineTo (text_x tp) (of_int (height cv))] 2 ''cyan'',
            Stroke [MoveTo right 0, LineTo right (of_int (height cv))] 2 ''chartreuse''])"
proof (intro conjI)
  show "getTextBox mt ctx tp =
     (let tm = mt (ctx_font (cur ctx)) (message tp);
          top = \<bar>text_y tp - actualBoundingBoxAscent tm\<bar>;
          bottom = \<bar>text_y tp + actualBoundingBoxDescent tm\<bar>
      in \<lparr>textTop = top, textBottom = bottom, textHeight = bottom - top,
          textMid = top + (bottom - top) / 2,
          textLeft = text_x tp, textRight = text_x tp + tm_width tm,
          textWidth = tm_width tm,
          textHorizonalCenter = text_x tp + tm_width tm / 2,
          textVerticalCenter = top + (bottom - top) / 2\<rparr>)"
    by (simp add: getTextBox_def Let_def)
  show "cur (drawTextBox mt ctx cv tp)
       = (cur ctx)\<lparr>ctx_fillStyle := fillStyle tp, ctx_font := font tp\<rparr>"
    by (simp add: drawTextBox_def Let_def drawLine_eq set_font_def set_fillStyle_def)
  show "drawn (drawTextBox mt ctx cv tp) = drawn ctx @
       (let tm = mt (font tp) (message tp);
            top = \<bar>text_y tp - actualBoundingBoxAscent tm\<bar>;
            bottom = \<bar>text_y tp + actualBoundingBoxDescent tm\<bar>;
            mid = top + (bottom - top) / 2;
            right = text_x tp + tm_width tm
        in [Stroke [MoveTo 0 top, LineTo (of_int (width cv)) top] 2 ''yellow'',
            Stroke [MoveTo 0 bottom, LineTo (of_int (width cv)) bottom] 2 ''orange'',
            Stroke [MoveTo 0 mid, LineTo (of_int (width cv)) mid] 2 ''red'',
            Stroke [MoveTo (text_x tp) 0, LineTo (text_x tp) (of_int (height cv))] 2 ''cyan'',
            Stroke [MoveTo right 0, LineTo right (of_int (height cv))] 2 ''chartreuse''])"
    by (simp add: drawTextBox_def getTextBox_def Let_def drawLine_eq set_font_def
        set_fillStyle_def)
qed

section \<open>Properties of the toggles\<close>

text \<open>
  Claim C10: for every toggle name that is a key of \<open>buttonBarToggles\<close>, the click
  listener installed by \<open>addButtonToBar\<close> is an involution on the whole record of
  toggles, and one click leaves every other toggle as it was (and does change the named
  one).
\<close>

theorem toggle_click_involution:
  assumes "toggle \<in> dom bbt"
  shows "addButtonToBar_click toggle (addButtonToBar_click toggle bbt) = bbt
       \<and> (\<forall>other. other \<noteq> toggle \<longrightarrow> addButtonToBar_click toggle bbt other = bbt other)
       \<and> addButtonToBar_click toggle bbt toggle \<noteq> bbt toggle"
  using assms by (auto simp: addButtonToBar_click_def truthy_def fun_eq_iff)

theorem toggle_click_involution_witness:
  "''showGrid'' \<in> dom initialToggles
   \<and> addButtonToBar_click ''showGrid'' (addButtonToBar_click ''showGrid'' initialToggles)
       = initialToggles
   \<and> addButtonToBar_click ''showGrid'' initialToggles ''showFPS'' = initialToggles ''showFPS''
   \<and> addButtonToBar_click ''showGrid'' initialToggles ''showGrid''
       \<noteq> initialToggles ''showGrid''"
proof -
  have key: "''showGrid'' \<in> dom initialToggles"
    by (simp add: initialToggles_def)
  have other: "''showFPS'' \<noteq> ''showGrid''"
    by simp
  from toggle_click_involution [OF key] have
    "addButtonToBar_click ''showGrid'' (addButtonToBar_click ''showGrid'' initialToggles)
       = initialToggles"
    and "\<forall>other. other \<noteq> ''showGrid'' \<longrightarrow>
           addButtonToBar_click ''showGrid'' initialToggles other = initialToggles other"
    and "addButtonToBar_click ''showGrid'' initialToggles ''showGrid''
       \<noteq> initialToggles ''showGrid''"
    by simp_all
  with key other show ?thesis
    by simp
qed

section \<open>Properties of the frame rate\<close>

text \<open>
  Claim C3: from \<open>fps = 0\<close>, no time stamps and \<open>counter = 0\<close>, eleven calls of
  \<open>drawFrameRate\<close> with the time stamps 0, 100, ..., 1000 leave \<open>counter\<close> at 0 and
  \<open>fps\<close> at 10, the number of time stamps then retained (0 has been shifted out, since
  \<open>0 \<le> 1000 - 1000\<close>).
\<close>

theorem drawFrameRate_eleven_frames:
  "snd (recordFrames cv [0, 100, 200, 300, 400, 500, 600, 700, 800, 900, 1000]
         (ctx, \<lparr>fps = 0, times = [], counter = 0\<rparr>))
   = \<lparr>fps = 10, times = [100, 200, 300, 400, 500, 600, 700, 800, 900, 1000], counter = 0\<rparr>"
  by (simp add: drawFrameRate_def Let_def)

lemma shiftOld_suffix: "\<exists>pre. ts = pre @ shiftOld t ts"
proof (induction ts)
  case Nil
  show ?case by simp
next
  case (Cons a ts)
  then obtain pre where pre: "ts = pre @ shiftOld t ts" by blast
  show ?case
  proof (cases "a \<le> t - 1000")
    case True
    from pre have "a # ts = (a # pre) @ shiftOld t ts" by simp
    with True have "a # ts = (a # pre) @ shiftOld t (a # ts)" by simp
    then show ?thesis by (rule exI)
  next
    case False
    then have "a # ts = [] @ shiftOld t (a # ts)" by simp
    then show ?thesis by (rule exI)
  qed
qed

lemma shiftOld_recent: "sorted ts \<Longrightarrow> r \<in> set (shiftOld t ts) \<Longrightarrow> t - 1000 < r"
  by (induction ts) (auto split: if_splits)

lemma times_drawFrameRate:
  "times (snd (drawFrameRate cv ctx t frp)) = shiftOld t (times frp) @ [t]"
  by (simp add: drawFrameRate_def Let_def)

lemma recordFrames_append:
  "recordFrames cv (ts @ us) s = recordFrames cv us (recordFrames cv ts s)"
  by (induction ts arbitrary: s) simp_all

lemma sorted_recordFrames:
  "sorted (times (snd s) @ ts) \<Longrightarrow> sorted (times (snd (recordFrames cv ts s)))"
proof (induction ts arbitrary: s)
  case Nil
  then show ?case by simp
next
  case (Cons t ts)
  obtain pre where pre: "times (snd s) = pre @ shiftOld t (times (snd s))"
    using shiftOld_suffix by blast
  from Cons.prems have "sorted (pre @ (shiftOld t (times (snd s)) @ [t]) @ ts)"
    by (metis pre append.assoc append_Cons append_Nil)
  then have "sorted ((shiftOld t (times (snd s)) @ [t]) @ ts)"
    using sorted_append by blast
  then have "sorted (times (snd (drawFrameRate cv (fst s) t (snd s))) @ ts)"
    by (simp only: times_drawFrameRate)
  then show ?case using Cons.IH by simp
qed

lemma window_after_last:
  assumes "sorted (ts @ [t])"
  shows "\<forall>r \<in> set (times (snd (recordFrames cv (ts @ [t]) (ctx, frp\<lparr>times := []\<rparr>)))).
           t - r \<le> 1000"
    and "last (times (snd (recordFrames cv (ts @ [t]) (ctx, frp\<lparr>times := []\<rparr>)))) = t"
proof -
  let ?s = "recordFrames cv ts (ctx, frp\<lparr>times := []\<rparr>)"
  from assms have "sorted ts" using sorted_append by blast
  then have srt: "sorted (times (snd ?s))"
    using sorted_recordFrames [of "(ctx, frp\<lparr>times := []\<rparr>)" ts cv] by simp
  have eq: "times (snd (recordFrames cv (ts @ [t]) (ctx, frp\<lparr>times := []\<rparr>)))
        = shiftOld t (times (snd ?s)) @ [t]"
    by (simp add: recordFrames_append times_drawFrameRate)
  show "\<forall>r \<in> set (times (snd (recordFrames cv (ts @ [t]) (ctx, frp\<lparr>times := []\<rparr>)))).
          t - r \<le> 1000"
    unfolding eq using shiftOld_recent [OF srt] by fastforce
  show "last (times (snd (recordFrames cv (ts @ [t]) (ctx, frp\<lparr>times := []\<rparr>)))) = t"
    unfolding eq by simp
qed

text \<open>
  Claim C4: let \<open>tss\<close> be strictly increasing time stamps and let \<open>drawFrameRate\<close> be
  called once for each, in order, starting with no retained time stamps. After each call
  (the one for \<open>tss ! n\<close>, that is after the first \<open>n + 1\<close> calls) the last retained time
  stamp is the one just pushed, and every retained time stamp is at most 1000 older.
\<close>

theorem drawFrameRate_window:
  assumes "sorted_wrt (<) tss" and "n < length tss"
  shows "last (times (snd (recordFrames cv (take (Suc n) tss) (ctx, frp\<lparr>times := []\<rparr>))))
           = tss ! n
       \<and> (\<forall>r \<in> set (times (snd (recordFrames cv (take (Suc n) tss)
                                   (ctx, frp\<lparr>times := []\<rparr>)))).
            tss ! n - r \<le> 1000)"
proof -
  have split: "take (Suc n) tss = take n tss @ [tss ! n]"
    using assms(2) by (simp add: take_Suc_conv_app_nth)
  have "sorted_wrt (<) (take (Suc n) tss)"
    using assms(1) by (metis append_take_drop_id sorted_wrt_append)
  then have "sorted (take n tss @ [tss ! n])"
    unfolding split by (rule strict_sorted_imp_sorted)
  from window_after_last [OF this] show ?thesis unfolding split by blast
qed

theorem drawFrameRate_window_witness:
  "sorted_wrt (<) [0, 500, 1200, 1300 :: real]
   \<and> (2::nat) < length [0, 500, 1200, 1300 :: real]
   \<and> last (times (snd (recordFrames \<lparr>width = 300, height = 150\<rparr>
        (take (Suc 2) [0, 500, 1200, 1300])
        (\<lparr>cur = \<lparr>ctx_strokeStyle = ''#000'', ctx_lineWidth = 1, ctx_fillStyle = ''#000'',
                 ctx_font = ''10px sans-serif''\<rparr>,
          saved = [], path = [], drawn = []\<rparr>,
         \<lparr>fps = 0, times = [], counter = 0\<rparr>\<lparr>times := []\<rparr>)))) = [0, 500, 1200, 1300] ! 2
   \<and> list_all (\<lambda>r. [0, 500, 1200, 1300] ! 2 - r \<le> 1000)
       (times (snd (recordFrames \<lparr>width = 300, height = 150\<rparr>
        (take (Suc 2) [0, 500, 1200, 1300])
        (\<lparr>cur = \<lparr>ctx_strokeStyle = ''#000'', ctx_lineWidth = 1, ctx_fillStyle = ''#000'',
                 ctx_font = ''10px sans-serif''\<rparr>,
          saved = [], path = [], drawn = []\<rparr>,
         \<lparr>fps = 0, times = [], counter = 0\<rparr>\<lparr>times := []\<rparr>))))"
  using drawFrameRate_window [of "[0, 500, 1200, 1300]" 2 "\<lparr>width = 300, height = 150\<rparr>"
     "\<lparr>cur = \<lparr>ctx_strokeStyle = ''#000'', ctx_lineWidth = 1, ctx_fillStyle = ''#000'',
              ctx_font = ''10px sans-serif''\<rparr>,
       saved = [], path = [], drawn = []\<rparr>" "\<lparr>fps = 0, times = [], counter = 0\<rparr>"]
  by (simp add: drawFrameRate_def Let_def)

section \<open>Properties of the diagnostics compositor\<close>

text \<open>
  Claim C9: two runs of \<open>drawDiagonstics\<close> whose toggles differ only in what
  \<open>showTextBox\<close> holds (any boolean, or nothing) paint the same and leave the same
  surface and the same \<open>frameRateProps\<close>. The toggles themselves are only read.
\<close>

theorem drawDiagonstics_ignores_showTextBox:
  "drawDiagonstics (bbt(''showTextBox'' := v)) mp frp cv ctx timeStamp
   = drawDiagonstics bbt mp frp cv ctx timeStamp"
  by (simp add: drawDiagonstics_def)

end
